theory Spec2Isabelle
  imports Main "HOL-Library.Char_ord" "HOL-Library.List_Lexorder"
begin

section \<open>The platform the cache is written against\<close>

text \<open>
  The cache stores and rebuilds \<^verbatim>\<open>Response\<close> objects of the Fetch standard and keeps
  their headers in a plain JavaScript object. The source calls \<^verbatim>\<open>response.text()\<close>,
  \<^verbatim>\<open>response.headers.forEach\<close>, \<^verbatim>\<open>headers.get\<close>, \<^verbatim>\<open>new Headers(record)\<close>,
  \<^verbatim>\<open>new Response(body, init)\<close> and \<^verbatim>\<open>response.clone()\<close>; this section writes down what
  these calls do, so that the functions of the repository can be read against them line
  by line. Strings are byte lists; a timestamp, a TTL and a status are integers. Header
  names, header values and status texts are taken as a \<^verbatim>\<open>Response\<close> holds them: the
  checks and the trimming that \<^verbatim>\<open>Headers\<close> and \<^verbatim>\<open>Response\<close> apply to new names, values
  and status texts are not part of the model.
\<close>

datatype error = TypeError | RangeError | StorageError

subsection \<open>Header lists\<close>

text \<open>
  A \<^verbatim>\<open>Headers\<close> object holds a header list: the (name, value) pairs in the order they
  were appended, names as they were written. Names are compared byte-case-insensitively.
  Iteration (\<^verbatim>\<open>forEach\<close>, \<^verbatim>\<open>entries\<close>, and the constructor reading another
  \<^verbatim>\<open>Headers\<close>) runs over the list sorted and combined: names lower-cased, in ascending
  byte order, one pair per name whose value joins that name's values with a comma and a
  space; \<^verbatim>\<open>set-cookie\<close> alone keeps one pair per value.
\<close>

type_synonym header_list = "(string \<times> string) list"

definition byte_lowercase :: "char \<Rightarrow> char" where
  "byte_lowercase c =
     (case map_of (zip ''ABCDEFGHIJKLMNOPQRSTUVWXYZ'' ''abcdefghijklmnopqrstuvwxyz'') c of
        None \<Rightarrow> c
      | Some d \<Rightarrow> d)"

definition lowercase :: "string \<Rightarrow> string" where
  "lowercase s = map byte_lowercase s"

definition header_names :: "header_list \<Rightarrow> string list" where
  "header_names hs = sort (remdups (map (\<lambda>h. lowercase (fst h)) hs))"

definition header_values :: "header_list \<Rightarrow> string \<Rightarrow> string list" where
  "header_values hs n = map snd (filter (\<lambda>h. lowercase (fst h) = n) hs)"

fun join_values :: "string list \<Rightarrow> string" where
  "join_values [] = []"
| "join_values [v] = v"
| "join_values (v # w # vs) = v @ '', '' @ join_values (w # vs)"

definition headers_get :: "header_list \<Rightarrow> string \<Rightarrow> string option" where
  "headers_get hs name =
     (let vs = header_values hs (lowercase name)
      in if vs = [] then None else Some (join_values vs))"

definition header_group :: "header_list \<Rightarrow> string \<Rightarrow> (string \<times> string) list" where
  "header_group hs n =
     (if n = ''set-cookie'' then map (Pair n) (header_values hs n)
      else [(n, join_values (header_values hs n))])"

definition headers_entries :: "header_list \<Rightarrow> (string \<times> string) list" where
  "headers_entries hs = concat (map (header_group hs) (header_names hs))"

subsection \<open>Plain objects used as string records\<close>

text \<open>
  \<^verbatim>\<open>headers[key] = value\<close> on a \<^verbatim>\<open>Record<string, string>\<close>: an existing property keeps
  its place and takes the new value, a new one is created after the others. Enumerating
  the object (as \<^verbatim>\<open>new Headers(record)\<close> does) visits the properties whose name is an
  array index first, in ascending numeric order, then the rest in creation order.
\<close>

type_synonym js_record = "(string \<times> string) list"

definition record_set :: "js_record \<Rightarrow> string \<Rightarrow> string \<Rightarrow> js_record" where
  "record_set obj k v =
     (if k \<in> fst ` set obj then map (\<lambda>p. if fst p = k then (k, v) else p) obj
      else obj @ [(k, v)])"

definition digit_value :: "char \<Rightarrow> int option" where
  "digit_value c = map_of (zip ''0123456789'' [0, 1, 2, 3, 4, 5, 6, 7, 8, 9]) c"

definition index_value :: "string \<Rightarrow> int" where
  "index_value s = foldl (\<lambda>n c. 10 * n + (case digit_value c of None \<Rightarrow> 0 | Some d \<Rightarrow> d)) 0 s"

definition is_array_index :: "string \<Rightarrow> bool" where
  "is_array_index s =
     (s \<noteq> [] \<and> list_all (\<lambda>c. digit_value c \<noteq> None) s \<and> (s = ''0'' \<or> hd s \<noteq> CHR ''0'')
      \<and> index_value s < 4294967295)"

definition own_entries :: "js_record \<Rightarrow> (string \<times> string) list" where
  "own_entries obj =
     sort_key (\<lambda>p. index_value (fst p)) (filter (\<lambda>p. is_array_index (fst p)) obj)
     @ filter (\<lambda>p. \<not> is_array_index (fst p)) obj"

definition new_Headers :: "js_record \<Rightarrow> header_list" where
  "new_Headers init = own_entries init"

subsection \<open>Responses\<close>

text \<open>
  A response: its body (\<open>None\<close> for a null body, otherwise the text the body decodes
  to), whether the body has been read, and its header list, status and status text.
  \<^verbatim>\<open>text()\<close> and \<^verbatim>\<open>clone()\<close> throw a TypeError on a body already read; the text of a
  null body is the empty string.

  \<^verbatim>\<open>new Response(body, {status, statusText, headers})\<close> throws a RangeError for a status
  outside 200..599 and a TypeError for a non-null body with a null body status (101, 103,
  204, 205, 304); it fills the header list from the given \<^verbatim>\<open>Headers\<close> by iteration and,
  for a string body, appends \<^verbatim>\<open>Content-Type: text/plain;charset=UTF-8\<close> when the list has
  no content type. A stream body brings no content type.
\<close>

record Response =
  res_body :: "string option"
  res_bodyUsed :: bool
  res_headers :: header_list
  res_status :: int
  res_statusText :: string

datatype body_init = Text string | Stream string

fun body_text :: "body_init \<Rightarrow> string" where
  "body_text (Text t) = t"
| "body_text (Stream t) = t"

fun body_type :: "body_init \<Rightarrow> string option" where
  "body_type (Text t) = Some ''text/plain;charset=UTF-8''"
| "body_type (Stream t) = None"

definition res_text :: "Response \<Rightarrow> error + string" where
  "res_text r =
     (if res_bodyUsed r then Inl TypeError
      else Inr (case res_body r of None \<Rightarrow> [] | Some t \<Rightarrow> t))"

definition res_clone :: "Response \<Rightarrow> error + Response" where
  "res_clone r = (if res_bodyUsed r then Inl TypeError else Inr r)"

definition null_body_status :: "int \<Rightarrow> bool" where
  "null_body_status s = (s = 101 \<or> s = 103 \<or> s = 204 \<or> s = 205 \<or> s = 304)"

definition with_content_type :: "body_init \<Rightarrow> header_list \<Rightarrow> header_list" where
  "with_content_type b hs =
     (case body_type b of
        None \<Rightarrow> hs
      | Some t \<Rightarrow> if headers_get hs ''Content-Type'' = None then hs @ [(''Content-Type'', t)] else hs)"

definition new_Response :: "body_init option \<Rightarrow> int \<Rightarrow> string \<Rightarrow> header_list \<Rightarrow> error + Response" where
  "new_Response b st stText hs =
     (if st < 200 \<or> 599 < st then Inl RangeError
      else case b of
        None \<Rightarrow>
          Inr \<lparr>res_body = None, res_bodyUsed = False, res_headers = headers_entries hs,
               res_status = st, res_statusText = stText\<rparr>
      | Some bi \<Rightarrow>
          if null_body_status st then Inl TypeError
          else Inr \<lparr>res_body = Some (body_text bi), res_bodyUsed = False,
                    res_headers = with_content_type bi (headers_entries hs),
                    res_status = st, res_statusText = stText\<rparr>)"

section \<open>The storage backend\<close>

text \<open>
  The backend is an \<^verbatim>\<open>unstorage\<close> handle, used through \<^verbatim>\<open>getItem\<close>, \<^verbatim>\<open>setItem\<close>,
  \<^verbatim>\<open>setMeta\<close> and \<^verbatim>\<open>removeItem\<close>. Its state is the stored entries, the stored metadata
  and, since any call may throw, the set of calls that throw. A call that throws leaves
  the state as it found it.
\<close>

record CachedResponse =
  body :: string
  headers :: js_record
  status :: int
  statusText :: string
  cachedAt :: int

record CacheMetadata =
  mtime :: int
  expires :: "int option"

datatype storage_call = GetItem string | SetItem string | SetMeta string | RemoveItem string

record storage =
  items :: "string \<Rightarrow> CachedResponse option"
  metas :: "string \<Rightarrow> CacheMetadata option"
  faulty :: "storage_call \<Rightarrow> bool"

text \<open>
  An asynchronous call of the source, awaited: it runs on the backend state and either
  returns a value or throws, and leaves a backend state behind in both cases.
\<close>

type_synonym 'a io = "storage \<Rightarrow> (error + 'a) \<times> storage"

definition io_return :: "'a \<Rightarrow> 'a io" where
  "io_return x st = (Inr x, st)"

definition io_bind :: "'a io \<Rightarrow> ('a \<Rightarrow> 'b io) \<Rightarrow> 'b io" where
  "io_bind m f st = (case m st of (Inl e, st') \<Rightarrow> (Inl e, st') | (Inr x, st') \<Rightarrow> f x st')"

definition io_lift :: "error + 'a \<Rightarrow> 'a io" where
  "io_lift r st = (r, st)"

definition try_catch :: "'a io \<Rightarrow> (error \<Rightarrow> 'a io) \<Rightarrow> 'a io" where
  "try_catch m handler st =
     (case m st of (Inl e, st') \<Rightarrow> handler e st' | (Inr x, st') \<Rightarrow> (Inr x, st'))"

definition getItem :: "string \<Rightarrow> CachedResponse option io" where
  "getItem key st = (if faulty st (GetItem key) then (Inl StorageError, st) else (Inr (items st key), st))"

definition setItem :: "string \<Rightarrow> CachedResponse \<Rightarrow> unit io" where
  "setItem key v st =
     (if faulty st (SetItem key) then (Inl StorageError, st)
      else (Inr (), st\<lparr>items := (items st)(key := Some v)\<rparr>))"

definition setMeta :: "string \<Rightarrow> CacheMetadata \<Rightarrow> unit io" where
  "setMeta key m st =
     (if faulty st (SetMeta key) then (Inl StorageError, st)
      else (Inr (), st\<lparr>metas := (metas st)(key := Some m)\<rparr>))"

definition removeItem :: "string \<Rightarrow> unit io" where
  "removeItem key st =
     (if faulty st (RemoveItem key) then (Inl StorageError, st)
      else (Inr (), st\<lparr>items := (items st)(key := None)\<rparr>))"

section \<open>utils.ts\<close>

text \<open>
  \<^verbatim>\<open>isExpired(cachedAt, ttl?)\<close> reads the clock itself; the reading is the argument
  \<open>now\<close>. \<^verbatim>\<open>!ttl\<close> holds for a missing TTL and for 0.
\<close>

definition isExpired :: "int \<Rightarrow> int option \<Rightarrow> int \<Rightarrow> bool" where
  "isExpired cachedAt' ttl' now =
     (case ttl' of
        None \<Rightarrow> False
      | Some t \<Rightarrow> if t = 0 then False else (let expiresAt = cachedAt' + t * 1000 in now > expiresAt))"

definition isCacheableStatus :: "int \<Rightarrow> int set \<Rightarrow> bool" where
  "isCacheableStatus st cacheableStatusCodes' = (st \<in> cacheableStatusCodes')"


text \<open>
  The request context: the request's method and URL, and the execution context, which
  may be missing and may lack \<^verbatim>\<open>waitUntil\<close> (the source reads it through optional
  chaining).
\<close>

datatype ExecutionContext = ExecutionContext (has_waitUntil: bool)

record Context =
  req_method :: string
  req_url :: string
  executionCtx :: "ExecutionContext option"

text \<open>
  \<^verbatim>\<open>generateCacheKey\<close> of \<^verbatim>\<open>packages/hono-universal-cache/src/utils.ts\<close>, and the one of
  \<^verbatim>\<open>src/utils.ts\<close>, which leaves the method out.
\<close>

definition generateCacheKey :: "Context \<Rightarrow> (Context \<Rightarrow> string) option \<Rightarrow> string" where
  "generateCacheKey c keyGenerator' =
     (case keyGenerator' of
        Some g \<Rightarrow> g c
      | None \<Rightarrow> req_method c @ '':'' @ req_url c)"


section \<open>cache.ts: the CacheManager\<close>

text \<open>
  The manager holds the backend handle and the optional TTL; the backend state is
  threaded through, the TTL is the first argument. \<^verbatim>\<open>Date.now()\<close> in
  \<^verbatim>\<open>serializeResponse\<close> is the argument \<open>now\<close>. The methods \<^verbatim>\<open>get\<close>, \<^verbatim>\<open>set\<close>,
  \<^verbatim>\<open>has\<close> and \<^verbatim>\<open>delete\<close> are \<open>cache_get\<close>, \<open>cache_set\<close>, \<open>cache_has\<close> and
  \<open>cache_delete\<close>; each \<^verbatim>\<open>try\<close>/\<^verbatim>\<open>catch\<close> of the source is a \<open>try_catch\<close>.
\<close>

definition serializeResponse :: "Response \<Rightarrow> int \<Rightarrow> error + CachedResponse" where
  "serializeResponse response now =
     (case res_text response of
        Inl e \<Rightarrow> Inl e
      | Inr body' \<Rightarrow>
          Inr \<lparr>body = body',
               headers = foldl (\<lambda>h (key, value). record_set h key value) []
                           (headers_entries (res_headers response)),
               status = res_status response,
               statusText = res_statusText response,
               cachedAt = now\<rparr>)"

definition deserializeResponse :: "CachedResponse \<Rightarrow> error + Response" where
  "deserializeResponse cached =
     (let headers' = new_Headers (headers cached)
      in new_Response (Some (Text (body cached))) (status cached) (statusText cached) headers')"

definition cache_delete :: "string \<Rightarrow> unit io" where
  "cache_delete key = try_catch (removeItem key) (\<lambda>error. io_return ())"

definition cache_get :: "int option \<Rightarrow> string \<Rightarrow> int \<Rightarrow> Response option io" where
  "cache_get ttl' key now =
     try_catch
       (io_bind (getItem key) (\<lambda>cached.
          case cached of
            None \<Rightarrow> io_return None
          | Some c \<Rightarrow>
              if isExpired (cachedAt c) ttl' now
              then io_bind (cache_delete key) (\<lambda>_. io_return None)
              else io_bind (io_lift (deserializeResponse c)) (\<lambda>r. io_return (Some r))))
       (\<lambda>error. io_return None)"

definition cache_set :: "int option \<Rightarrow> string \<Rightarrow> Response \<Rightarrow> int \<Rightarrow> unit io" where
  "cache_set ttl' key response now =
     try_catch
       (io_bind (io_lift (serializeResponse response now)) (\<lambda>serialized.
        io_bind (setItem key serialized) (\<lambda>_.
          case ttl' of
            None \<Rightarrow> io_return ()
          | Some t \<Rightarrow>
              if t = 0 then io_return ()
              else setMeta key \<lparr>mtime = cachedAt serialized,
                                expires = Some (cachedAt serialized + t * 1000)\<rparr>)))
       (\<lambda>error. io_return ())"

definition cache_has :: "int option \<Rightarrow> string \<Rightarrow> int \<Rightarrow> bool io" where
  "cache_has ttl' key now =
     try_catch
       (io_bind (getItem key) (\<lambda>cached.
          case cached of
            None \<Rightarrow> io_return False
          | Some c \<Rightarrow> io_return (\<not> isExpired (cachedAt c) ttl' now)))
       (\<lambda>error. io_return False)"

section \<open>types.ts\<close>

datatype cacheName_option = Name string | NameFn "Context \<Rightarrow> string"

record CacheOptions =
  cacheName :: cacheName_option
  cacheableStatusCodes :: "int list option"
  keyGenerator :: "(Context \<Rightarrow> string) option"
  ttl :: "int option"

definition DEFAULT_CACHEABLE_STATUS_CODES :: "int list" where
  "DEFAULT_CACHEABLE_STATUS_CODES = [200]"

text \<open>
  \<^verbatim>\<open>options.storage\<close> is the backend whose state the middleware is run on; without it
  the middleware calls \<^verbatim>\<open>createStorage()\<close>, an empty in-memory backend.
\<close>

definition createStorage :: storage where
  "createStorage = \<lparr>items = (\<lambda>k. None), metas = (\<lambda>k. None), faulty = (\<lambda>call. False)\<rparr>"

section \<open>index.ts: the middleware\<close>

text \<open>
  One request through the handler that \<^verbatim>\<open>universalCache(options)\<close> returns. The arguments
  are the options, the context, the response that \<^verbatim>\<open>await next()\<close> leaves in \<^verbatim>\<open>c.res\<close>,
  the clock readings at the lookup and at the write, and the backend state. The outcome
  tells what the caller receives, whether the downstream handlers ran, what became of
  the write promise (never created, awaited before the handler returned, handed to
  \<^verbatim>\<open>waitUntil\<close>, or left running with neither), the backend state at the moment the
  handler returns and the backend state once the write promise has settled. A write that
  is not awaited has touched nothing when the handler returns: \<^verbatim>\<open>set\<close> suspends at
  \<^verbatim>\<open>response.text()\<close> before its first backend call.
\<close>

datatype persistence = NotAttempted | Awaited | Registered | Detached

record outcome =
  returned :: Response
  downstream_ran :: bool
  persistence :: persistence
  at_return :: storage
  settled :: storage

definition waitUntil_offered :: "Context \<Rightarrow> bool" where
  "waitUntil_offered c = (case executionCtx c of None \<Rightarrow> False | Some x \<Rightarrow> has_waitUntil x)"

text \<open>
  The handler of \<^verbatim>\<open>packages/hono-universal-cache/src/index.ts\<close>; \<open>runtimeKey\<close> is
  \<^verbatim>\<open>getRuntimeKey()\<close>. Both handlers run on the \<^verbatim>\<open>CacheManager\<close> and the options above.
\<close>

definition universalCache ::
  "CacheOptions \<Rightarrow> string \<Rightarrow> Context \<Rightarrow> Response \<Rightarrow> int \<Rightarrow> int \<Rightarrow> storage \<Rightarrow> error + outcome" where
  "universalCache options runtimeKey c downstream t_lookup t_store st =
     (let baseKey = generateCacheKey c (keyGenerator options);
          cacheName' = (case cacheName options of Name n \<Rightarrow> n | NameFn f \<Rightarrow> f c);
          key = cacheName' @ '':'' @ baseKey;
          cacheableStatusCodes' =
            set (case cacheableStatusCodes options of
                   None \<Rightarrow> DEFAULT_CACHEABLE_STATUS_CODES
                 | Some codes \<Rightarrow> codes)
      in case cache_get (ttl options) key t_lookup st of
           (Inl e, st1) \<Rightarrow> Inl e
         | (Inr (Some cachedResponse), st1) \<Rightarrow>
             (case new_Response (map_option Stream (res_body cachedResponse))
                     (res_status cachedResponse) (res_statusText cachedResponse)
                     (res_headers cachedResponse) of
                Inl e \<Rightarrow> Inl e
              | Inr r \<Rightarrow>
                  Inr \<lparr>returned = r, downstream_ran = False, persistence = NotAttempted,
                       at_return = st1, settled = st1\<rparr>)
         | (Inr None, st1) \<Rightarrow>
             if \<not> isCacheableStatus (res_status downstream) cacheableStatusCodes'
             then Inr \<lparr>returned = downstream, downstream_ran = True,
                       persistence = NotAttempted, at_return = st1, settled = st1\<rparr>
             else
               (case res_clone downstream of
                  Inl e \<Rightarrow> Inl e
                | Inr res \<Rightarrow>
                    (case cache_set (ttl options) key res t_store st1 of
                       (written, st2) \<Rightarrow>
                         if runtimeKey = ''workerd''
                         then Inr \<lparr>returned = downstream, downstream_ran = True,
                                   persistence =
                                     (if waitUntil_offered c then Registered else Detached),
                                   at_return = st1, settled = st2\<rparr>
                         else
                           (case written of
                              Inl e \<Rightarrow> Inl e
                            | Inr u \<Rightarrow>
                                Inr \<lparr>returned = downstream, downstream_ran = True,
                                     persistence = Awaited, at_return = st2,
                                     settled = st2\<rparr>))))"






section \<open>Requests and responses used as concrete inputs\<close>

definition default_options :: CacheOptions where
  "default_options =
     \<lparr>cacheName = Name ''n'', cacheableStatusCodes = None, keyGenerator = None, ttl = None\<rparr>"


definition post_request :: Context where
  "post_request = \<lparr>req_method = ''POST'', req_url = ''http://localhost/api'', executionCtx = None\<rparr>"

definition json_response :: Response where
  "json_response =
     \<lparr>res_body = Some ''{}'', res_bodyUsed = False,
      res_headers = [(''Content-Type'', ''application/json'')],
      res_status = 200, res_statusText = ''OK''\<rparr>"






text \<open>The entry \<open>set\<close> writes for \<open>json_response\<close> at time 0, and the response \<open>get\<close> rebuilds from it.\<close>

definition json_entry :: CachedResponse where
  "json_entry =
     \<lparr>body = ''{}'', headers = [(''content-type'', ''application/json'')],
      status = 200, statusText = ''OK'', cachedAt = 0\<rparr>"



section \<open>The CacheManager, case by case\<close>

lemmas io_defs = io_return_def io_bind_def io_lift_def try_catch_def
lemmas backend_defs = getItem_def setItem_def setMeta_def removeItem_def

lemma cache_delete_result: "fst (cache_delete key st) = Inr ()"
  by (simp add: cache_delete_def io_defs backend_defs)

lemma cache_get_cases:
  "cache_get ttl' key now st =
     (if faulty st (GetItem key) then (Inr None, st)
      else case items st key of
        None \<Rightarrow> (Inr None, st)
      | Some c \<Rightarrow>
          if isExpired (cachedAt c) ttl' now then (Inr None, snd (cache_delete key st))
          else (case deserializeResponse c of
                  Inl e \<Rightarrow> (Inr None, st)
                | Inr r \<Rightarrow> (Inr (Some r), st)))"
  by (simp add: cache_get_def cache_delete_def io_defs backend_defs
      split: option.splits sum.splits)

lemma cache_has_cases:
  "cache_has ttl' key now st =
     (if faulty st (GetItem key) then (Inr False, st)
      else case items st key of
        None \<Rightarrow> (Inr False, st)
      | Some c \<Rightarrow> (Inr (\<not> isExpired (cachedAt c) ttl' now), st))"
  by (simp add: cache_has_def io_defs backend_defs split: option.splits)

lemma cache_set_cases:
  "cache_set ttl' key response now st =
     (case serializeResponse response now of
        Inl e \<Rightarrow> (Inr (), st)
      | Inr serialized \<Rightarrow>
          if faulty st (SetItem key) then (Inr (), st)
          else if ttl' = None \<or> ttl' = Some 0 \<or> faulty st (SetMeta key)
          then (Inr (), st\<lparr>items := (items st)(key := Some serialized)\<rparr>)
          else (Inr (), st\<lparr>items := (items st)(key := Some serialized),
                           metas := (metas st)(key := Some \<lparr>mtime = cachedAt serialized,
                              expires = Some (cachedAt serialized + the ttl' * 1000)\<rparr>)\<rparr>))"
  by (auto simp add: cache_set_def io_defs backend_defs split: option.splits sum.splits)

lemma isExpired_no_ttl: "isExpired c None now = False" "isExpired c (Some 0) now = False"
  by (simp_all add: isExpired_def)








section \<open>The middleware, case by case\<close>



section \<open>Header lists and the recorded mapping\<close>


































section \<open>Claims\<close>

text \<open>
  C1. The claim holds of no handler in the repository: neither \<^verbatim>\<open>index.ts\<close> reads the
  request method or a \<^verbatim>\<open>bypassMethodCheck\<close> option. With the default options, a POST
  whose handler answers 200 is written to the backend under the request's key before the
  handler of \<^verbatim>\<open>packages/hono-universal-cache/src/index.ts\<close> returns.
\<close>

theorem post_response_is_persisted:
  "(case universalCache default_options ''node'' post_request json_response 0 1 createStorage of
      Inl e \<Rightarrow> False
    | Inr r \<Rightarrow>
        returned r = json_response \<and> persistence r = Awaited
        \<and> items (at_return r) ''n:POST:http://localhost/api''
            = Some \<lparr>body = ''{}'', headers = [(''content-type'', ''application/json'')],
                    status = 200, statusText = ''OK'', cachedAt = 1\<rparr>)"
  by code_simp















text \<open>
  C6. \<open>get\<close> and \<open>set\<close> never throw. \<open>get\<close> always returns a value; when the
  backend throws on the read it returns absent and leaves the backend as it was, and for
  an expired entry it returns absent whether or not the backend throws on the removal.
  \<open>set\<close> always returns normally; when reading the body throws, or when the backend
  throws on the write, it returns normally and leaves the backend as it was.
\<close>

theorem cache_fail_open:
  "(\<exists>r. fst (cache_get ttl' key now st) = Inr r)
   \<and> (faulty st (GetItem key) \<longrightarrow> cache_get ttl' key now st = (Inr None, st))
   \<and> (items st key = Some e \<and> isExpired (cachedAt e) ttl' now \<longrightarrow>
         fst (cache_get ttl' key now st) = Inr None)
   \<and> fst (cache_set ttl' key response now st) = Inr ()
   \<and> (res_bodyUsed response \<longrightarrow> cache_set ttl' key response now st = (Inr (), st))
   \<and> (faulty st (SetItem key) \<longrightarrow> cache_set ttl' key response now st = (Inr (), st))"
  by (simp add: cache_get_cases cache_set_cases serializeResponse_def res_text_def
      split: option.splits sum.splits)

theorem cache_fail_open_witness:
  "faulty (createStorage\<lparr>faulty := (\<lambda>call. True)\<rparr>) (GetItem ''k'')
   \<and> fst (cache_get (Some 60) ''k'' 0 (createStorage\<lparr>faulty := (\<lambda>call. True)\<rparr>)) = Inr None
   \<and> isExpired (cachedAt json_entry) (Some 1) 5000
   \<and> fst (cache_get (Some 1) ''k'' 5000
          (createStorage\<lparr>items := (\<lambda>k. Some json_entry),
                          faulty := (\<lambda>call. call = RemoveItem ''k'')\<rparr>)) = Inr None
   \<and> res_bodyUsed (json_response\<lparr>res_bodyUsed := True\<rparr>)
   \<and> fst (cache_set (Some 60) ''k'' (json_response\<lparr>res_bodyUsed := True\<rparr>) 0 createStorage) = Inr ()
   \<and> faulty (createStorage\<lparr>faulty := (\<lambda>call. True)\<rparr>) (SetItem ''k'')
   \<and> fst (cache_set (Some 60) ''k'' json_response 0 (createStorage\<lparr>faulty := (\<lambda>call. True)\<rparr>)) = Inr ()"
proof -
  have x: "isExpired (cachedAt json_entry) (Some 1) 5000"
    by (simp add: isExpired_def json_entry_def)
  show ?thesis
    using cache_fail_open [where ttl' = "Some 60" and key = "''k''" and now = 0
        and st = "createStorage\<lparr>faulty := (\<lambda>call. True)\<rparr>" and response = json_response]
      cache_fail_open [where ttl' = "Some 60" and key = "''k''" and now = 0
        and st = createStorage and response = "json_response\<lparr>res_bodyUsed := True\<rparr>"]
      cache_fail_open [where ttl' = "Some 1" and key = "''k''" and now = 5000 and e = json_entry
        and st = "createStorage\<lparr>items := (\<lambda>k. Some json_entry),
                                 faulty := (\<lambda>call. call = RemoveItem ''k'')\<rparr>"]
      x
    by (simp add: createStorage_def)
qed











text \<open>
  C10. A manager built with \<open>ttl = 0\<close> behaves as one built without a TTL:
  \<open>isExpired\<close> is false for every \<open>cachedAt\<close> and every clock reading, \<open>get\<close>,
  \<open>has\<close> and \<open>set\<close> do exactly what they do without a TTL, \<open>get\<close> leaves the
  backend as it found it (it deletes nothing), and \<open>set\<close> leaves the stored metadata
  as it was.
\<close>

theorem ttl_zero_is_no_ttl:
  "isExpired cachedAt' (Some 0) now = False
   \<and> cache_get (Some 0) key now st = cache_get None key now st
   \<and> cache_has (Some 0) key now st = cache_has None key now st
   \<and> cache_set (Some 0) key response now st = cache_set None key response now st
   \<and> snd (cache_get (Some 0) key now st) = st
   \<and> metas (snd (cache_set (Some 0) key response now st)) = metas st"
proof -
  have "cache_get (Some 0) key now st = cache_get None key now st"
    by (simp add: cache_get_cases isExpired_no_ttl split: option.splits)
  moreover have "cache_has (Some 0) key now st = cache_has None key now st"
    by (simp add: cache_has_cases isExpired_no_ttl split: option.splits)
  moreover have "cache_set (Some 0) key response now st = cache_set None key response now st"
    by (simp add: cache_set_cases split: sum.splits)
  moreover have "snd (cache_get (Some 0) key now st) = st"
    by (simp add: cache_get_cases isExpired_no_ttl split: option.splits sum.splits)
  moreover have "metas (snd (cache_set (Some 0) key response now st)) = metas st"
    by (simp add: cache_set_cases split: sum.splits)
  ultimately show ?thesis
    by (simp add: isExpired_no_ttl)
qed

theorem ttl_zero_is_no_ttl_witness:
  "isExpired 0 (Some 0) 86400000 = False
   \<and> metas (snd (cache_set (Some 0) ''k'' json_response 86400000 createStorage)) ''k'' = None"
proof -
  note w = ttl_zero_is_no_ttl [where cachedAt' = 0 and now = 86400000 and key = "''k''"
      and response = json_response and st = createStorage]
  from w have a: "isExpired 0 (Some 0) 86400000 = False"
    by blast
  from w have b: "metas (snd (cache_set (Some 0) ''k'' json_response 86400000 createStorage))
      = metas createStorage"
    by blast
  show ?thesis
    unfolding b using a by (simp add: createStorage_def)
qed

end
